theory Spec2Isabelle
  imports Complex_Main "HOL-Library.Multiset" "HOL-Library.Word" "HOL-Library.List_Lexorder"
begin

section \<open>The contribution ledger of App.js\<close>

text \<open>
  App.js is one React component. Its state variables are the form fields \<open>name\<close>,
  \<open>payment\<close> and \<open>date\<close>, the flag \<open>showDatePicker\<close>, the collection
  \<open>contributions\<close> and the reference \<open>editingId\<close>. An event handler is modelled
  as a function from the state before the event to the state after it, or to the error it
  throws.
\<close>

subsection \<open>Data\<close>

text \<open>
  A JavaScript string is the sequence of its 16-bit code units. \<open>js\<close> reads a literal,
  character by character, as such a string.
\<close>

type_synonym code_unit = "16 word"

type_synonym jsstring = "code_unit list"

abbreviation cu :: "char \<Rightarrow> code_unit" where
  "cu \<equiv> of_char"

definition js :: "string \<Rightarrow> jsstring" where
  "js s = map cu s"

text \<open>An element of \<open>contributions\<close>: the object \<open>{ id, name, payment, date }\<close>.\<close>

record contribution =
  id_item :: jsstring
  name_item :: jsstring
  payment_item :: jsstring
  date_item :: jsstring

text \<open>
  A \<open>Date\<close> object is represented by what \<open>toISOString()\<close> yields for it: the ISO text
  when its time value is valid, and nothing for the invalid date, on which
  \<open>toISOString()\<close> throws a RangeError.
\<close>

datatype jsdate = ISO jsstring | Invalid_Date

datatype error = RangeError

text \<open>
  The component's state, together with the slot \<open>'@contributions'\<close> of AsyncStorage and
  the number of \<open>setItem\<close> calls issued on it so far.
\<close>

record app_state =
  name :: jsstring
  payment :: jsstring
  date :: jsdate
  showDatePicker :: bool
  contributions :: "contribution list"
  editingId :: "jsstring option"
  storage :: "jsstring option"
  setItem_calls :: nat

subsection \<open>Platform functions used by the component\<close>

text \<open>\<open>Number.prototype.toString\<close> on a natural number: its decimal digits.\<close>

definition digit :: "nat \<Rightarrow> code_unit" where
  "digit d = js ''0123456789'' ! d"

function toString :: "nat \<Rightarrow> jsstring" where
  "toString n = (if n < 10 then [digit n] else toString (n div 10) @ [digit (n mod 10)])"
  by pat_completeness auto
termination
  by (relation "measure (\<lambda>n. n)") auto

declare toString.simps [simp del]

text \<open>The number that a text of decimal digits denotes, read from the left.\<close>

fun fromDigits :: "nat \<Rightarrow> jsstring \<Rightarrow> nat" where
  "fromDigits acc [] = acc"
| "fromDigits acc (c # cs) = fromDigits (10 * acc + (unat c - 48)) cs"

text \<open>\<open>s.split(sep)[0]\<close>: the text before the first occurrence of \<open>sep\<close>, all of \<open>s\<close> when there is none.\<close>

definition split_first :: "code_unit \<Rightarrow> jsstring \<Rightarrow> jsstring" where
  "split_first sep s = takeWhile (\<lambda>c. c \<noteq> sep) s"

fun toISOString :: "jsdate \<Rightarrow> error + jsstring" where
  "toISOString (ISO s) = Inr s"
| "toISOString Invalid_Date = Inl RangeError"

text \<open>JavaScript truthiness of a string, and of a state variable that is a string or \<open>null\<close>.\<close>

definition truthy :: "jsstring \<Rightarrow> bool" where
  "truthy s = (s \<noteq> [])"

fun truthy_ref :: "jsstring option \<Rightarrow> bool" where
  "truthy_ref None = False"
| "truthy_ref (Some s) = truthy s"

subsubsection \<open>JSON.stringify on the collection\<close>

definition hexdigit :: "nat \<Rightarrow> code_unit" where
  "hexdigit d = js ''0123456789abcdef'' ! d"

text \<open>A code unit written as \<open>\uxxxx\<close>, with four lower-case hexadecimal digits.\<close>

definition unicode_escape :: "code_unit \<Rightarrow> jsstring" where
  "unicode_escape c =
     [cu CHR 0x5C, cu CHR ''u'',
      hexdigit (unat c div 4096), hexdigit (unat c div 256 mod 16),
      hexdigit (unat c div 16 mod 16), hexdigit (unat c mod 16)]"

text \<open>The two halves of a surrogate pair: the leading and the trailing surrogates.\<close>

definition is_lead :: "code_unit \<Rightarrow> bool" where
  "is_lead c = (0xD800 \<le> c \<and> c \<le> 0xDBFF)"

definition is_trail :: "code_unit \<Rightarrow> bool" where
  "is_trail c = (0xDC00 \<le> c \<and> c \<le> 0xDFFF)"

text \<open>
  QuoteJSONString on a code unit that is no surrogate: the two-character escapes for
  backspace, tab, line feed, form feed, carriage return, the quotation mark and the
  backslash; \<open>\uxxxx\<close> for the other code units below 32; every other code unit as it
  is.
\<close>

definition quote_char :: "code_unit \<Rightarrow> jsstring" where
  "quote_char c =
    (if c = cu CHR 0x08 then [cu CHR 0x5C, cu CHR ''b'']
     else if c = cu CHR 0x09 then [cu CHR 0x5C, cu CHR ''t'']
     else if c = cu CHR 0x0A then [cu CHR 0x5C, cu CHR ''n'']
     else if c = cu CHR 0x0C then [cu CHR 0x5C, cu CHR ''f'']
     else if c = cu CHR 0x0D then [cu CHR 0x5C, cu CHR ''r'']
     else if c = cu CHR 0x22 then [cu CHR 0x5C, cu CHR 0x22]
     else if c = cu CHR 0x5C then [cu CHR 0x5C, cu CHR 0x5C]
     else if unat c < 32 then unicode_escape c
     else [c])"

text \<open>
  QuoteJSONString between the quotation marks. The string is read by code points: a
  leading surrogate with the trailing surrogate after it is one code point and is
  written as it is; a surrogate that stands alone is written as \<open>\uxxxx\<close>.
\<close>

fun quote_body :: "jsstring \<Rightarrow> jsstring" where
  "quote_body [] = []"
| "quote_body [c] = (if is_lead c \<or> is_trail c then unicode_escape c else quote_char c)"
| "quote_body (c # d # s) =
     (if is_lead c \<and> is_trail d then c # d # quote_body s
      else if is_lead c \<or> is_trail c then unicode_escape c @ quote_body (d # s)
      else quote_char c @ quote_body (d # s))"

definition quote :: "jsstring \<Rightarrow> jsstring" where
  "quote s = cu CHR 0x22 # quote_body s @ [cu CHR 0x22]"

text \<open>The members of an object are written in the order of its keys: id, name, payment, date.\<close>

definition stringify_item :: "contribution \<Rightarrow> jsstring" where
  "stringify_item item =
     js ''{'' @ quote (js ''id'') @ js '':'' @ quote (id_item item) @
     js '','' @ quote (js ''name'') @ js '':'' @ quote (name_item item) @
     js '','' @ quote (js ''payment'') @ js '':'' @ quote (payment_item item) @
     js '','' @ quote (js ''date'') @ js '':'' @ quote (date_item item) @ js ''}''"

fun stringify_items :: "contribution list \<Rightarrow> jsstring" where
  "stringify_items [] = []"
| "stringify_items [item] = stringify_item item"
| "stringify_items (item # items) = stringify_item item @ js '','' @ stringify_items items"

definition JSON_stringify :: "contribution list \<Rightarrow> jsstring" where
  "JSON_stringify items = js ''['' @ stringify_items items @ js '']''"

subsubsection \<open>JSON.parse on the slot's text\<close>

text \<open>
  \<open>JSON.parse\<close> is modelled on the JSON texts that denote a list of contributions: an
  array of objects with the members id, name, payment and date in this order, all
  strings. White space may stand between the tokens, and a string may use every escape of
  JSON. Every other text is \<open>None\<close>: for a text that is not JSON the platform throws a
  SyntaxError, and JSON of another shape is no list of contributions and has no
  counterpart in this model.
\<close>

definition hexval :: "code_unit \<Rightarrow> nat option" where
  "hexval c =
     (let n = unat c in
      if 48 \<le> n \<and> n \<le> 57 then Some (n - 48)
      else if 97 \<le> n \<and> n \<le> 102 then Some (n - 87)
      else if 65 \<le> n \<and> n \<le> 70 then Some (n - 55)
      else None)"

definition unescape :: "code_unit \<Rightarrow> code_unit option" where
  "unescape e =
     (if e = cu CHR 0x22 \<or> e = cu CHR 0x5C \<or> e = cu CHR ''/'' then Some e
      else if e = cu CHR ''b'' then Some (cu CHR 0x08)
      else if e = cu CHR ''f'' then Some (cu CHR 0x0C)
      else if e = cu CHR ''n'' then Some (cu CHR 0x0A)
      else if e = cu CHR ''r'' then Some (cu CHR 0x0D)
      else if e = cu CHR ''t'' then Some (cu CHR 0x09)
      else None)"

definition push :: "code_unit \<Rightarrow> (jsstring \<times> jsstring) option \<Rightarrow> (jsstring \<times> jsstring) option" where
  "push c r = map_option (\<lambda>(s, rest). (c # s, rest)) r"

text \<open>The code units of a string after its opening quotation mark, and the text after the closing one.\<close>

fun parse_string_body :: "jsstring \<Rightarrow> (jsstring \<times> jsstring) option" where
  "parse_string_body [] = None"
| "parse_string_body (c # cs) =
     (if c = cu CHR 0x22 then Some ([], cs)
      else if c = cu CHR 0x5C then
        (case cs of
           [] \<Rightarrow> None
         | e # cs1 \<Rightarrow>
             if e = cu CHR ''u'' then
               (case cs1 of
                  h1 # h2 # h3 # h4 # cs2 \<Rightarrow>
                    (case (hexval h1, hexval h2, hexval h3, hexval h4) of
                       (Some a, Some b, Some x, Some y) \<Rightarrow>
                         push (of_nat (4096 * a + 256 * b + 16 * x + y)) (parse_string_body cs2)
                     | _ \<Rightarrow> None)
                | _ \<Rightarrow> None)
             else
               (case unescape e of
                  None \<Rightarrow> None
                | Some x \<Rightarrow> push x (parse_string_body cs1)))
      else if unat c < 32 then None
      else push c (parse_string_body cs))"

text \<open>The white space of JSON: space, tab, line feed, carriage return.\<close>

definition is_json_white :: "code_unit \<Rightarrow> bool" where
  "is_json_white c = (c = cu CHR 0x20 \<or> c = cu CHR 0x09 \<or> c = cu CHR 0x0A \<or> c = cu CHR 0x0D)"

text \<open>The text after a given one-character token, which white space may precede.\<close>

definition expect_char :: "code_unit \<Rightarrow> jsstring \<Rightarrow> jsstring option" where
  "expect_char tok s =
     (case dropWhile is_json_white s of
        [] \<Rightarrow> None
      | c # rest \<Rightarrow> if c = tok then Some rest else None)"

definition parse_string :: "jsstring \<Rightarrow> (jsstring \<times> jsstring) option" where
  "parse_string s =
     (case expect_char (cu CHR 0x22) s of None \<Rightarrow> None | Some s1 \<Rightarrow> parse_string_body s1)"

text \<open>A member \<open>"key":"value"\<close> with the given key: its value.\<close>

definition parse_member :: "jsstring \<Rightarrow> jsstring \<Rightarrow> (jsstring \<times> jsstring) option" where
  "parse_member key s =
     (case parse_string s of
        None \<Rightarrow> None
      | Some (k, s1) \<Rightarrow>
          if k = key then
            (case expect_char (cu CHR '':'') s1 of None \<Rightarrow> None | Some s2 \<Rightarrow> parse_string s2)
          else None)"

definition parse_item :: "jsstring \<Rightarrow> (contribution \<times> jsstring) option" where
  "parse_item s =
     (case expect_char (cu CHR ''{'') s of None \<Rightarrow> None | Some s0 \<Rightarrow>
      case parse_member (js ''id'') s0 of None \<Rightarrow> None | Some (i, s1) \<Rightarrow>
      case expect_char (cu CHR '','') s1 of None \<Rightarrow> None | Some s2 \<Rightarrow>
      case parse_member (js ''name'') s2 of None \<Rightarrow> None | Some (n, s3) \<Rightarrow>
      case expect_char (cu CHR '','') s3 of None \<Rightarrow> None | Some s4 \<Rightarrow>
      case parse_member (js ''payment'') s4 of None \<Rightarrow> None | Some (p, s5) \<Rightarrow>
      case expect_char (cu CHR '','') s5 of None \<Rightarrow> None | Some s6 \<Rightarrow>
      case parse_member (js ''date'') s6 of None \<Rightarrow> None | Some (d, s7) \<Rightarrow>
      case expect_char (cu CHR ''}'') s7 of None \<Rightarrow> None | Some s8 \<Rightarrow>
        Some (\<lparr>id_item = i, name_item = n, payment_item = p, date_item = d\<rparr>, s8))"

lemma parse_string_body_shorter:
  "parse_string_body s = Some (x, rest) \<Longrightarrow> length rest < length s"
proof (induction s arbitrary: x rest rule: parse_string_body.induct)
  case 1
  then show ?case by simp
next
  case (2 c cs)
  from "2.prems" "2.IH" show ?case
    by (auto simp: push_def split: if_splits list.splits option.splits intro!: less_SucI)
qed

lemma expect_char_shorter: "expect_char tok s = Some rest \<Longrightarrow> length rest < length s"
proof -
  assume a: "expect_char tok s = Some rest"
  have "length (dropWhile is_json_white s) \<le> length s"
    by (rule length_dropWhile_le)
  with a show ?thesis
    by (auto simp: expect_char_def split: list.splits if_splits)
qed

lemma parse_string_shorter: "parse_string s = Some (x, rest) \<Longrightarrow> length rest < length s"
  by (auto simp: parse_string_def split: option.splits
      dest!: expect_char_shorter parse_string_body_shorter)

lemma parse_member_shorter: "parse_member key s = Some (x, rest) \<Longrightarrow> length rest < length s"
  by (auto simp: parse_member_def split: option.splits if_splits
      dest!: expect_char_shorter parse_string_shorter)

lemma parse_item_shorter: "parse_item s = Some (item, rest) \<Longrightarrow> length rest < length s"
  by (auto simp: parse_item_def split: option.splits
      dest!: parse_member_shorter expect_char_shorter)

text \<open>
  The items of an array from its first item on, up to the closing bracket, after which
  only white space may follow.
\<close>

function parse_items :: "jsstring \<Rightarrow> contribution list option" where
  "parse_items s =
     (case parse_item s of
        None \<Rightarrow> None
      | Some (item, rest) \<Rightarrow>
          (case expect_char (cu CHR '','') rest of
             Some rest1 \<Rightarrow> map_option ((#) item) (parse_items rest1)
           | None \<Rightarrow>
               (case expect_char (cu CHR '']'') rest of
                  None \<Rightarrow> None
                | Some rest2 \<Rightarrow> if dropWhile is_json_white rest2 = [] then Some [item] else None)))"
  by pat_completeness auto
termination
  by (relation "measure length") (auto dest!: parse_item_shorter expect_char_shorter)

declare parse_items.simps [simp del]

definition JSON_parse :: "jsstring \<Rightarrow> contribution list option" where
  "JSON_parse s =
     (case expect_char (cu CHR ''['') s of
        None \<Rightarrow> None
      | Some s1 \<Rightarrow>
          (case expect_char (cu CHR '']'') s1 of
             Some s2 \<Rightarrow> if dropWhile is_json_white s2 = [] then Some [] else None
           | None \<Rightarrow> parse_items s1))"

subsection \<open>The component\<close>

text \<open>\<open>const formatDate = (date) => date.toISOString().split('T')[0]\<close>\<close>

definition formatDate :: "jsdate \<Rightarrow> error + jsstring" where
  "formatDate d = (case toISOString d of Inl e \<Rightarrow> Inl e | Inr s \<Rightarrow> Inr (split_first (cu CHR ''T'') s))"

text \<open>
  The second effect of the component runs after every render in which \<open>contributions\<close>
  is a new array: it writes \<open>JSON.stringify(contributions)\<close> to the slot. Each handler
  below gives \<open>setContributions\<close> a freshly built array, so every call of
  \<open>setContributions\<close> is followed by one run of \<open>saveContributions\<close>. The write is
  taken to succeed; the source catches and logs a failed one.
\<close>

definition saveContributions :: "app_state \<Rightarrow> app_state" where
  "saveContributions st =
     st\<lparr>storage := Some (JSON_stringify (contributions st)),
        setItem_calls := Suc (setItem_calls st)\<rparr>"

definition setContributions :: "contribution list \<Rightarrow> app_state \<Rightarrow> app_state" where
  "setContributions items st = saveContributions (st\<lparr>contributions := items\<rparr>)"

text \<open>
  \<open>addOrUpdateContribution\<close>, the handler of the submit button. \<open>now\<close> is the value of
  \<open>Date.now()\<close> and \<open>today\<close> the value of \<open>new Date()\<close> at the time of the call.
\<close>

definition addOrUpdateContribution :: "nat \<Rightarrow> jsdate \<Rightarrow> app_state \<Rightarrow> error + app_state" where
  "addOrUpdateContribution now today st =
     (if truthy (name st) \<and> truthy (payment st) then
        (case formatDate (date st) of
           Inl e \<Rightarrow> Inl e
         | Inr formattedDate \<Rightarrow>
             let st1 =
               (if truthy_ref (editingId st) then
                  (setContributions
                     (map (\<lambda>item. if Some (id_item item) = editingId st
                                   then item\<lparr>name_item := name st, payment_item := payment st,
                                             date_item := formattedDate\<rparr>
                                   else item)
                          (contributions st)) st)
                     \<lparr>editingId := None\<rparr>
                else
                  setContributions
                    (contributions st @
                       [\<lparr>id_item = toString now, name_item = name st,
                         payment_item = payment st, date_item = formattedDate\<rparr>]) st)
             in Inr (st1\<lparr>name := [], payment := [], date := today\<rparr>))
      else Inr st)"

text \<open>
  \<open>editContribution\<close>, the handler of a row's Edit button. \<open>newDate\<close> is the platform's
  \<open>new Date(jsstring)\<close>.
\<close>

definition editContribution :: "(jsstring \<Rightarrow> jsdate) \<Rightarrow> jsstring \<Rightarrow> app_state \<Rightarrow> error + app_state" where
  "editContribution newDate i st =
     (case find (\<lambda>item. id_item item = i) (contributions st) of
        None \<Rightarrow> Inr st
      | Some contribution \<Rightarrow>
          Inr (st\<lparr>name := name_item contribution, payment := payment_item contribution,
                  date := newDate (date_item contribution),
                  editingId := Some (id_item contribution)\<rparr>))"

text \<open>\<open>deleteContribution\<close>, the handler of a row's Delete button.\<close>

definition deleteContribution :: "jsstring \<Rightarrow> app_state \<Rightarrow> error + app_state" where
  "deleteContribution i st =
     Inr (setContributions (filter (\<lambda>item. id_item item \<noteq> i) (contributions st)) st)"

text \<open>The state of the component at its first render, over a given content of the slot.\<close>

definition initial :: "jsdate \<Rightarrow> jsstring option \<Rightarrow> app_state" where
  "initial today slot =
     \<lparr>name = [], payment = [], date = today, showDatePicker = False,
      contributions = [], editingId = None, storage = slot, setItem_calls = 0\<rparr>"

text \<open>The form's own setters: \<open>onChangeText={setName}\<close>, \<open>onChangeText={setPayment}\<close>.\<close>

definition setName :: "jsstring \<Rightarrow> app_state \<Rightarrow> error + app_state" where
  "setName s st = Inr (st\<lparr>name := s\<rparr>)"

definition setPayment :: "jsstring \<Rightarrow> app_state \<Rightarrow> error + app_state" where
  "setPayment s st = Inr (st\<lparr>payment := s\<rparr>)"

text \<open>\<open>onDateChange\<close>: the picker closes; a selected date, when there is one, becomes the form's date.\<close>

definition onDateChange :: "jsdate option \<Rightarrow> app_state \<Rightarrow> error + app_state" where
  "onDateChange selectedDate st =
     (let st1 = st\<lparr>showDatePicker := False\<rparr>
      in case selectedDate of None \<Rightarrow> Inr st1 | Some d \<Rightarrow> Inr (st1\<lparr>date := d\<rparr>))"

subsubsection \<open>The sorted view\<close>

text \<open>
  \<open>Array.prototype.sort\<close> with a comparison function is a stable sort (ECMAScript 2019):
  \<open>a\<close> stays before \<open>b\<close> unless the comparison puts \<open>b\<close> first. It is modelled as the
  insertion sort that keeps an element before the elements it does not exceed.
\<close>

fun insert_by :: "('a \<Rightarrow> 'a \<Rightarrow> int) \<Rightarrow> 'a \<Rightarrow> 'a list \<Rightarrow> 'a list" where
  "insert_by cmp x [] = [x]"
| "insert_by cmp x (y # ys) = (if cmp x y \<le> 0 then x # y # ys else y # insert_by cmp x ys)"

definition sort_by :: "('a \<Rightarrow> 'a \<Rightarrow> int) \<Rightarrow> 'a list \<Rightarrow> 'a list" where
  "sort_by cmp xs = foldr (insert_by cmp) xs []"

text \<open>
  Modelled from the spec: \<open>String.prototype.localeCompare\<close> is the platform's and not in
  the repository; the spec reads the comparison of two dates as the lexicographic one.
  The result is negative, zero or positive as the receiver comes before, with or after
  the argument, code unit by code unit.
\<close>

fun localeCompare :: "jsstring \<Rightarrow> jsstring \<Rightarrow> int" where
  "localeCompare [] [] = 0"
| "localeCompare [] (y # ys) = - 1"
| "localeCompare (x # xs) [] = 1"
| "localeCompare (x # xs) (y # ys) =
     (if x < y then - 1
      else if y < x then 1
      else localeCompare xs ys)"

text \<open>\<open>[...contributions].sort((a, b) => b.date.localeCompare(a.date))\<close>\<close>

definition sortedContributions :: "contribution list \<Rightarrow> contribution list" where
  "sortedContributions items = sort_by (\<lambda>a b. localeCompare (date_item b) (date_item a)) items"

subsubsection \<open>The total\<close>

text \<open>
  A Number is NaN or one of the other doubles, \<open>'v\<close>. The arithmetic of the doubles is
  the platform's and a parameter here: \<open>add\<close> is the sum of two doubles that are not NaN
  (NaN for the sum of the two infinities of opposite sign), \<open>lit\<close> the double that a
  text starting with a decimal literal denotes, \<open>zero\<close> the double 0.
\<close>

datatype 'v number = NaN | Num 'v

fun js_add :: "('v \<Rightarrow> 'v \<Rightarrow> 'v number) \<Rightarrow> 'v number \<Rightarrow> 'v number \<Rightarrow> 'v number" where
  "js_add add (Num a) (Num b) = add a b"
| "js_add add _ _ = NaN"

text \<open>
  The white space and line terminators that \<open>parseFloat\<close> skips at the start: tab, line
  feed, vertical tab, form feed, carriage return, the space, the no-break space, the
  other space separators of Unicode, the line and paragraph separators and the byte order
  mark.
\<close>

definition is_white :: "code_unit \<Rightarrow> bool" where
  "is_white c =
     (c \<in> {0x09, 0x0A, 0x0B, 0x0C, 0x0D, 0x20, 0xA0, 0x1680, 0x2028, 0x2029, 0x202F, 0x205F,
            0x3000, 0xFEFF} \<or>
      (0x2000 \<le> c \<and> c \<le> 0x200A))"

definition is_digit :: "code_unit \<Rightarrow> bool" where
  "is_digit c = (cu CHR ''0'' \<le> c \<and> c \<le> cu CHR ''9'')"

text \<open>
  Whether some prefix of the text is a StrUnsignedDecimalLiteral: the text starts with
  \<open>Infinity\<close>, with a digit, or with a point and a digit.
\<close>

definition starts_unsigned :: "jsstring \<Rightarrow> bool" where
  "starts_unsigned s =
     (take 8 s = (js ''Infinity'') \<or>
      (case s of
         [] \<Rightarrow> False
       | c # cs \<Rightarrow> is_digit c \<or> (c = (cu CHR ''.'') \<and> (case cs of [] \<Rightarrow> False | d # _ \<Rightarrow> is_digit d))))"

text \<open>Whether some prefix of the text is a StrDecimalLiteral: an optional sign, then the above.\<close>

definition has_decimal_prefix :: "jsstring \<Rightarrow> bool" where
  "has_decimal_prefix s =
     (case s of
        [] \<Rightarrow> False
      | c # cs \<Rightarrow> if c = (cu CHR ''+'') \<or> c = (cu CHR ''-'') then starts_unsigned cs else starts_unsigned s)"

text \<open>
  \<open>parseFloat\<close>: NaN when the text, after its leading white space, has no prefix that is
  a decimal literal, and the double of its longest such prefix otherwise.
\<close>

definition parseFloat :: "(jsstring \<Rightarrow> 'v) \<Rightarrow> jsstring \<Rightarrow> 'v number" where
  "parseFloat lit s =
     (let trimmed = dropWhile is_white s
      in if has_decimal_prefix trimmed then Num (lit trimmed) else NaN)"

text \<open>
  \<open>contributions.reduce((sum, item) => sum + parseFloat(item.payment), 0)\<close>: the sum
  is taken from the left, in the order of the collection.
\<close>

definition totalPayment ::
  "('v \<Rightarrow> 'v \<Rightarrow> 'v number) \<Rightarrow> (jsstring \<Rightarrow> 'v) \<Rightarrow> 'v \<Rightarrow> contribution list \<Rightarrow> 'v number" where
  "totalPayment add lit zero items =
     foldl (\<lambda>sum item. js_add add sum (parseFloat lit (payment_item item))) (Num zero) items"

subsubsection \<open>The arithmetic of the doubles\<close>

text \<open>
  What the platform puts in the place of these parameters: IEEE 754 binary64 with
  rounding to nearest, ties to even. A double other than NaN is an infinity or a finite double, given
  by its value. The sign of zero is not kept, and no total depends on it: the sum starts
  from the positive zero, adding a zero of either sign leaves a double as it is, and a
  sum of two doubles that is zero is the positive zero unless both are negative zeros.
\<close>

datatype double = Fin real | PosInf | NegInf

text \<open>The number of binary digits of a natural number.\<close>

function bitlen :: "nat \<Rightarrow> nat" where
  "bitlen n = (if n = 0 then 0 else 1 + bitlen (n div 2))"
  by pat_completeness auto
termination
  by (relation "measure (\<lambda>n. n)") auto

declare bitlen.simps [simp del]

text \<open>\<open>x\<close> times \<open>b\<close> to the power \<open>k\<close>, for an exponent of either sign.\<close>

definition scale :: "real \<Rightarrow> real \<Rightarrow> int \<Rightarrow> real" where
  "scale b x k = (if 0 \<le> k then x * b ^ nat k else x / b ^ nat (- k))"

text \<open>For a positive \<open>x\<close>, the exponent \<open>e\<close> for which \<open>x\<close> is at least \<open>2 ^ e\<close> and less than \<open>2 ^ (e + 1)\<close>.\<close>

definition binade :: "real \<Rightarrow> int" where
  "binade x =
     (if 1 \<le> x then int (bitlen (nat \<lfloor>x\<rfloor>)) - 1
      else - int (bitlen (nat (\<lceil>1 / x\<rceil> - 1))))"

text \<open>The integer nearest to \<open>y\<close>, the even one of the two when \<open>y\<close> lies halfway.\<close>

definition round_half_even :: "real \<Rightarrow> int" where
  "round_half_even y =
     (let d = \<lfloor>y\<rfloor>; r = y - of_int d
      in if r < 1 / 2 then d else if 1 / 2 < r then d + 1 else if even d then d else d + 1)"

text \<open>
  The double nearest to a positive real: the significand has 53 binary digits, or fewer
  when the exponent of its last digit would fall below \<open>-1074\<close>; a result of
  \<open>2 ^ 1024\<close> or more is the infinity.
\<close>

definition round_pos :: "real \<Rightarrow> double" where
  "round_pos x =
     (let t = max (binade x - 52) (- 1074);
          n = round_half_even (scale 2 x (- t));
          v = scale 2 (of_int n) t
      in if 2 ^ 1024 \<le> v then PosInf else Fin v)"

fun negate :: "double \<Rightarrow> double" where
  "negate (Fin v) = Fin (- v)"
| "negate PosInf = NegInf"
| "negate NegInf = PosInf"

definition round_double :: "real \<Rightarrow> double" where
  "round_double x =
     (if x = 0 then Fin 0 else if 0 < x then round_pos x else negate (round_pos (- x)))"

fun double_add :: "double \<Rightarrow> double \<Rightarrow> double number" where
  "double_add (Fin a) (Fin b) = Num (round_double (a + b))"
| "double_add PosInf NegInf = NaN"
| "double_add NegInf PosInf = NaN"
| "double_add PosInf _ = Num PosInf"
| "double_add _ PosInf = Num PosInf"
| "double_add NegInf _ = Num NegInf"
| "double_add _ NegInf = Num NegInf"

text \<open>
  The double that a text starting with a StrDecimalLiteral denotes: the exact value of its
  longest prefix that is such a literal, rounded. (For a literal of more than twenty
  significant digits ECMAScript lets a platform round a nearby value instead.)
\<close>

definition digits_value :: "jsstring \<Rightarrow> nat" where
  "digits_value s = fromDigits 0 (takeWhile is_digit s)"

definition starts_with_digit :: "jsstring \<Rightarrow> bool" where
  "starts_with_digit s = (case s of [] \<Rightarrow> False | c # _ \<Rightarrow> is_digit c)"

definition exponent_part :: "jsstring \<Rightarrow> int" where
  "exponent_part s =
     (case s of
        [] \<Rightarrow> 0
      | c # r \<Rightarrow>
          if c = (cu CHR ''e'') \<or> c = (cu CHR ''E'') then
            (case r of
               [] \<Rightarrow> 0
             | sg # r1 \<Rightarrow>
                 if sg = (cu CHR ''+'') \<and> starts_with_digit r1 then int (digits_value r1)
                 else if sg = (cu CHR ''-'') \<and> starts_with_digit r1 then - int (digits_value r1)
                 else if is_digit sg then int (digits_value r)
                 else 0)
          else 0)"

definition decimal_value :: "jsstring \<Rightarrow> real" where
  "decimal_value s =
     (let ip = takeWhile is_digit s; r1 = dropWhile is_digit s;
          has_point = (case r1 of [] \<Rightarrow> False
                       | c # r \<Rightarrow> c = (cu CHR ''.'') \<and> (ip \<noteq> [] \<or> starts_with_digit r));
          fp = (if has_point then takeWhile is_digit (tl r1) else []);
          r2 = (if has_point then dropWhile is_digit (tl r1) else r1)
      in scale 10 (of_nat (fromDigits 0 (ip @ fp))) (exponent_part r2 - int (length fp)))"

definition unsigned_literal :: "jsstring \<Rightarrow> double" where
  "unsigned_literal s = (if take 8 s = (js ''Infinity'') then PosInf else round_double (decimal_value s))"

definition double_lit :: "jsstring \<Rightarrow> double" where
  "double_lit s =
     (case s of
        [] \<Rightarrow> unsigned_literal s
      | c # r \<Rightarrow>
          if c = (cu CHR ''+'') then unsigned_literal r
          else if c = (cu CHR ''-'') then negate (unsigned_literal r)
          else unsigned_literal s)"

text \<open>
  \<open>toFixed(2)\<close>, as \<open>totalPayment.toFixed(2)\<close> renders the total: the nearest number of
  hundredths, the larger one from halfway, written with two decimals. From
  \<open>10 ^ 21\<close> on the platform writes the number as \<open>toString\<close> does, in a notation
  that is not modelled here.
\<close>

definition toFixed2 :: "double number \<Rightarrow> jsstring option" where
  "toFixed2 x =
     (case x of
        NaN \<Rightarrow> Some (js ''NaN'')
      | Num PosInf \<Rightarrow> Some (js ''Infinity'')
      | Num NegInf \<Rightarrow> Some (js ''-Infinity'')
      | Num (Fin v) \<Rightarrow>
          if 10 ^ 21 \<le> \<bar>v\<bar> then None
          else
            let n = nat \<lfloor>\<bar>v\<bar> * 100 + 1 / 2\<rfloor>;
                ds = toString n;
                m = replicate (3 - length ds) (cu CHR ''0'') @ ds
            in Some ((if v < 0 then js ''-'' else []) @
                 take (length m - 2) m @ (js ''.'') @ drop (length m - 2) m))"

subsubsection \<open>Loading\<close>

text \<open>
  The first effect of the component, run once after the first render: the slot's text,
  when there is one, is parsed and becomes the collection; a SyntaxError is caught and
  logged, and the collection stays as it is. The order in which the platform serves this
  read and the write that the second effect issues after the same render is not modelled.
\<close>

definition loadContributions :: "app_state \<Rightarrow> app_state" where
  "loadContributions st =
     (case storage st of
        None \<Rightarrow> st
      | Some jsonValue \<Rightarrow>
          (case JSON_parse jsonValue of
             None \<Rightarrow> st
           | Some items \<Rightarrow> setContributions items st))"

subsubsection \<open>Runs of the component\<close>

text \<open>
  What the user does: typing into the two fields, choosing or dismissing a date,
  pressing the submit button (at a clock reading), and pressing Edit or Delete on a row.
  An error thrown by a handler ends the run.
\<close>

datatype event =
  ChangeName jsstring
| ChangePayment jsstring
| ChangeDate "jsdate option"
| Submit nat jsdate
| Edit jsstring
| Delete jsstring

fun handle :: "(jsstring \<Rightarrow> jsdate) \<Rightarrow> event \<Rightarrow> app_state \<Rightarrow> error + app_state" where
  "handle newDate (ChangeName s) st = setName s st"
| "handle newDate (ChangePayment s) st = setPayment s st"
| "handle newDate (ChangeDate d) st = onDateChange d st"
| "handle newDate (Submit now today) st = addOrUpdateContribution now today st"
| "handle newDate (Edit i) st = editContribution newDate i st"
| "handle newDate (Delete i) st = deleteContribution i st"

fun run :: "(jsstring \<Rightarrow> jsdate) \<Rightarrow> event list \<Rightarrow> app_state \<Rightarrow> error + app_state" where
  "run newDate [] st = Inr st"
| "run newDate (e # es) st =
     (case handle newDate e st of Inl err \<Rightarrow> Inl err | Inr st1 \<Rightarrow> run newDate es st1)"

section \<open>Properties\<close>

subsection \<open>Auxiliary facts\<close>

lemma toString_small: "n < 10 \<Longrightarrow> toString n = [digit n]"
  by (subst toString.simps) simp

lemma toString_large: "\<not> n < 10 \<Longrightarrow> toString n = toString (n div 10) @ [digit (n mod 10)]"
  by (subst toString.simps) simp

lemma unat_digit: "d < 10 \<Longrightarrow> unat (digit d) = 48 + d"
proof -
  assume "d < 10"
  then have "d \<in> {0, 1, 2, 3, 4, 5, 6, 7, 8, 9}" by auto
  then show ?thesis by (auto simp: digit_def js_def)
qed

lemma fromDigits_append: "fromDigits acc (xs @ ys) = fromDigits (fromDigits acc xs) ys"
  by (induction xs arbitrary: acc) auto

lemma fromDigits_toString: "fromDigits 0 (toString n) = n"
proof (induction n rule: toString.induct)
  case (1 n)
  show ?case
  proof (cases "n < 10")
    case True
    then show ?thesis by (simp add: toString_small unat_digit)
  next
    case False
    with 1 have "fromDigits 0 (toString (n div 10)) = n div 10" by simp
    with False show ?thesis
      by (simp add: toString_large fromDigits_append unat_digit)
  qed
qed

lemma toString_inj: "inj toString"
  by (rule inj_on_inverseI [where g = "fromDigits 0"]) (rule fromDigits_toString)

lemma formatDate_ISO: "formatDate (ISO s) = Inr (split_first (cu CHR ''T'') s)"
  by (simp add: formatDate_def)

lemma submit_rejected:
  "name st = [] \<or> payment st = [] \<Longrightarrow> addOrUpdateContribution now today st = Inr st"
  by (auto simp: addOrUpdateContribution_def truthy_def)

lemma submit_throws:
  "name st \<noteq> [] \<Longrightarrow> payment st \<noteq> [] \<Longrightarrow> formatDate (date st) = Inl e \<Longrightarrow>
   addOrUpdateContribution now today st = Inl e"
  by (simp add: addOrUpdateContribution_def truthy_def)

lemma submit_add:
  "name st \<noteq> [] \<Longrightarrow> payment st \<noteq> [] \<Longrightarrow> \<not> truthy_ref (editingId st) \<Longrightarrow>
   formatDate (date st) = Inr d \<Longrightarrow>
   addOrUpdateContribution now today st =
     Inr (st\<lparr>name := [], payment := [], date := today,
            contributions := contributions st @
              [\<lparr>id_item = toString now, name_item = name st, payment_item = payment st,
                date_item = d\<rparr>],
            storage := Some (JSON_stringify (contributions st @
              [\<lparr>id_item = toString now, name_item = name st, payment_item = payment st,
                date_item = d\<rparr>])),
            setItem_calls := Suc (setItem_calls st)\<rparr>)"
  by (simp add: addOrUpdateContribution_def truthy_def setContributions_def saveContributions_def)

lemma submit_update:
  "name st \<noteq> [] \<Longrightarrow> payment st \<noteq> [] \<Longrightarrow> truthy_ref (editingId st) \<Longrightarrow> editingId st = Some i \<Longrightarrow>
   formatDate (date st) = Inr d \<Longrightarrow>
   addOrUpdateContribution now today st =
     Inr (st\<lparr>name := [], payment := [], date := today,
            contributions :=
              map (\<lambda>item. if id_item item = i
                           then item\<lparr>name_item := name st, payment_item := payment st, date_item := d\<rparr>
                           else item) (contributions st),
            editingId := None,
            storage := Some (JSON_stringify
              (map (\<lambda>item. if id_item item = i
                           then item\<lparr>name_item := name st, payment_item := payment st, date_item := d\<rparr>
                           else item) (contributions st))),
            setItem_calls := Suc (setItem_calls st)\<rparr>)"
  by (simp add: addOrUpdateContribution_def truthy_def setContributions_def saveContributions_def)

lemma map_no_match:
  "i \<notin> id_item ` set items \<Longrightarrow> map (\<lambda>item. if id_item item = i then f item else item) items = items"
  by (induction items) auto

lemma delete_result:
  "deleteContribution i st =
     Inr (st\<lparr>contributions := filter (\<lambda>item. id_item item \<noteq> i) (contributions st),
            storage := Some (JSON_stringify (filter (\<lambda>item. id_item item \<noteq> i) (contributions st))),
            setItem_calls := Suc (setItem_calls st)\<rparr>)"
  by (simp add: deleteContribution_def setContributions_def saveContributions_def)

lemma localeCompare_less: "(localeCompare a b < 0) = (a < b)"
  by (induction a b rule: localeCompare.induct) auto

lemma localeCompare_eq: "(localeCompare a b = 0) = (a = b)"
  by (induction a b rule: localeCompare.induct) auto

lemma localeCompare_le: "(localeCompare a b \<le> 0) = (a \<le> b)"
  using localeCompare_less [of a b] localeCompare_eq [of a b] by auto

lemma set_insert_by: "set (insert_by cmp x ys) = insert x (set ys)"
  by (induction ys) auto

lemma mset_insert_by: "mset (insert_by cmp x ys) = add_mset x (mset ys)"
  by (induction ys) auto

lemma mset_sort_by: "mset (sort_by cmp xs) = mset xs"
  by (induction xs) (auto simp: sort_by_def mset_insert_by)

lemma set_sort_by: "set (sort_by cmp xs) = set xs"
  by (induction xs) (auto simp: sort_by_def set_insert_by)

lemma record_update_eq:
  "item\<lparr>name_item := n, payment_item := p, date_item := d\<rparr> =
   \<lparr>id_item = id_item item, name_item = n, payment_item = p, date_item = d\<rparr>"
  by (cases item) simp

lemma sorted_insert_by_date:
  "sorted_wrt (\<lambda>a b. date_item b \<le> date_item a) ys \<Longrightarrow>
   sorted_wrt (\<lambda>a b. date_item b \<le> date_item a)
     (insert_by (\<lambda>a b. localeCompare (date_item b) (date_item a)) x ys)"
  by (induction ys) (auto simp: set_insert_by localeCompare_le)

lemma sorted_sort_by_date:
  "sorted_wrt (\<lambda>a b. date_item b \<le> date_item a)
     (sort_by (\<lambda>a b. localeCompare (date_item b) (date_item a)) xs)"
  by (induction xs) (auto simp: sort_by_def sorted_insert_by_date)

lemma filter_insert_by_date:
  "filter (\<lambda>r. date_item r = d) (insert_by (\<lambda>a b. localeCompare (date_item b) (date_item a)) x ys) =
   filter (\<lambda>r. date_item r = d) (x # ys)"
  by (induction ys) (auto simp: localeCompare_le)

lemma filter_sort_by_date:
  "filter (\<lambda>r. date_item r = d) (sort_by (\<lambda>a b. localeCompare (date_item b) (date_item a)) xs) =
   filter (\<lambda>r. date_item r = d) xs"
proof (induction xs)
  case Nil
  show ?case by (simp add: sort_by_def)
next
  case (Cons x xs)
  have "sort_by (\<lambda>a b. localeCompare (date_item b) (date_item a)) (x # xs) =
        insert_by (\<lambda>a b. localeCompare (date_item b) (date_item a)) x
          (sort_by (\<lambda>a b. localeCompare (date_item b) (date_item a)) xs)"
    by (simp add: sort_by_def)
  with Cons show ?case by (simp add: filter_insert_by_date)
qed

lemma hexval_hexdigit: "k < 16 \<Longrightarrow> hexval (hexdigit k) = Some k"
proof -
  assume "k < 16"
  then have "k = 0 \<or> k = 1 \<or> k = 2 \<or> k = 3 \<or> k = 4 \<or> k = 5 \<or> k = 6 \<or> k = 7 \<or>
      k = 8 \<or> k = 9 \<or> k = 10 \<or> k = 11 \<or> k = 12 \<or> k = 13 \<or> k = 14 \<or> k = 15"
    by arith
  then show ?thesis by (elim disjE) (simp_all add: hexval_def hexdigit_def js_def)
qed

lemma unat_code_unit: "unat (c :: code_unit) < 65536"
  using unsigned_less [of c, where ?'a = nat] by simp

lemma four_nibbles:
  "4096 * (n div 4096) + 256 * (n div 256 mod 16) + 16 * (n div 16 mod 16) + n mod 16 = (n :: nat)"
proof -
  have a: "n div 16 div 16 = n div 256" "n div 256 div 16 = n div 4096"
    by (simp_all add: div_mult2_eq [symmetric])
  have "16 * (n div 16) + n mod 16 = n"
    and "16 * (n div 16 div 16) + n div 16 mod 16 = n div 16"
    and "16 * (n div 256 div 16) + n div 256 mod 16 = n div 256"
    by simp_all
  with a show ?thesis by linarith
qed

lemma parse_unicode_escape:
  "parse_string_body (unicode_escape c @ rest) = push c (parse_string_body rest)"
proof -
  have "unat c div 4096 < 16" using unat_code_unit [of c] by simp
  then show ?thesis
    by (simp add: unicode_escape_def hexval_hexdigit four_nibbles)
qed

lemma parse_literal:
  "\<not> unat c < 32 \<Longrightarrow> c \<noteq> 0x22 \<Longrightarrow> c \<noteq> 0x5C \<Longrightarrow>
   parse_string_body (c # rest) = push c (parse_string_body rest)"
  by simp

lemma parse_surrogate:
  "is_lead c \<or> is_trail c \<Longrightarrow> parse_string_body (c # rest) = push c (parse_string_body rest)"
proof -
  assume "is_lead c \<or> is_trail c"
  then have "55296 \<le> unat c"
    by (auto simp: is_lead_def is_trail_def word_le_nat_alt)
  then have "\<not> unat c < 32" "c \<noteq> 0x22" "c \<noteq> 0x5C" by auto
  then show ?thesis by (rule parse_literal)
qed

lemma parse_quote_char:
  "parse_string_body (quote_char c @ rest) = push c (parse_string_body rest)"
proof (cases "c \<in> {0x08, 0x09, 0x0A, 0x0C, 0x0D, 0x22, 0x5C}")
  case True
  then show ?thesis by (auto simp: quote_char_def unescape_def)
next
  case False
  show ?thesis
  proof (cases "unat c < 32")
    case True
    with False show ?thesis
      by (simp add: quote_char_def parse_unicode_escape del: parse_string_body.simps)
  next
    case ge: False
    with False show ?thesis by (simp add: quote_char_def)
  qed
qed

lemma parse_quote_body:
  "parse_string_body (quote_body s @ 0x22 # rest) = Some (s, rest)"
proof (induction s rule: quote_body.induct)
  case 1
  show ?case by simp
next
  case (2 c)
  have "parse_string_body (0x22 # rest) = Some ([], rest)" by simp
  then show ?case
    by (simp add: parse_unicode_escape parse_quote_char push_def del: parse_string_body.simps)
next
  case (3 c d s)
  show ?case
  proof (cases "is_lead c \<and> is_trail d")
    case True
    with 3 have "parse_string_body (quote_body s @ 0x22 # rest) = Some (s, rest)" by simp
    with True show ?thesis
      by (simp add: parse_surrogate push_def del: parse_string_body.simps)
  next
    case False
    with 3 have ih: "parse_string_body (quote_body (d # s) @ 0x22 # rest) = Some (d # s, rest)"
      by blast
    show ?thesis
    proof (cases "is_lead c \<or> is_trail c")
      case True
      with False have "quote_body (c # d # s) = unicode_escape c @ quote_body (d # s)" by auto
      with ih show ?thesis
        by (simp add: parse_unicode_escape push_def
            del: parse_string_body.simps quote_body.simps)
    next
      case nosur: False
      with False have "quote_body (c # d # s) = quote_char c @ quote_body (d # s)" by auto
      with ih show ?thesis
        by (simp add: parse_quote_char push_def del: parse_string_body.simps quote_body.simps)
    qed
  qed
qed

lemma expect_char_head:
  "\<not> is_json_white tok \<Longrightarrow> expect_char tok (tok # rest) = Some rest"
  by (simp add: expect_char_def)

lemma parse_string_quote: "parse_string (quote v @ rest) = Some (v, rest)"
  by (simp add: parse_string_def quote_def expect_char_def is_json_white_def parse_quote_body
      del: parse_string_body.simps)

lemma parse_member_quote:
  "parse_member key (quote key @ 0x3A # quote v @ rest) = Some (v, rest)"
proof -
  have "parse_string (quote key @ (0x3A # quote v @ rest)) = Some (key, 0x3A # quote v @ rest)"
    by (rule parse_string_quote)
  then show ?thesis
    by (simp add: parse_member_def expect_char_def is_json_white_def parse_string_quote)
qed

lemma parse_stringify_item: "parse_item (stringify_item item @ rest) = Some (item, rest)"
proof -
  have "stringify_item item @ rest =
     0x7B # quote (js ''id'') @ 0x3A # quote (id_item item) @
     0x2C # quote (js ''name'') @ 0x3A # quote (name_item item) @
     0x2C # quote (js ''payment'') @ 0x3A # quote (payment_item item) @
     0x2C # quote (js ''date'') @ 0x3A # quote (date_item item) @ 0x7D # rest"
    by (simp add: stringify_item_def js_def)
  moreover have "expect_char 0x7B (0x7B # r) = Some r"
    and "expect_char 0x2C (0x2C # r) = Some r"
    and "expect_char 0x7D (0x7D # r) = Some r" for r
    by (simp_all add: expect_char_def is_json_white_def)
  ultimately show ?thesis
    by (simp add: parse_item_def parse_member_quote del: parse_string_body.simps)
qed

lemma parse_stringify_items:
  "parse_items (stringify_items (item # items) @ [0x5D]) = Some (item # items)"
proof (induction items arbitrary: item)
  case Nil
  have "expect_char 0x2C [0x5D] = None" "expect_char 0x5D [0x5D] = Some []"
    by (simp_all add: expect_char_def is_json_white_def)
  then show ?case
    by (subst parse_items.simps) (simp add: parse_stringify_item)
next
  case (Cons item2 items)
  have "stringify_items (item # item2 # items) @ [0x5D] =
        stringify_item item @ (0x2C # stringify_items (item2 # items) @ [0x5D])"
    by (simp add: js_def)
  moreover have "expect_char 0x2C (0x2C # r) = Some r" for r
    by (simp add: expect_char_def is_json_white_def)
  ultimately show ?case
    by (subst parse_items.simps)
      (simp add: parse_stringify_item Cons.IH del: stringify_items.simps)
qed

lemma stringify_items_head:
  "\<exists>tl. stringify_items (item # items) @ [0x5D] = 0x7B # tl"
  by (cases items) (simp_all add: stringify_item_def js_def)

lemma JSON_parse_stringify: "JSON_parse (JSON_stringify items) = Some items"
proof (cases items)
  case Nil
  then show ?thesis
    by (simp add: JSON_parse_def JSON_stringify_def js_def expect_char_def is_json_white_def)
next
  case (Cons item rest)
  obtain tl where tl: "stringify_items (item # rest) @ [0x5D] = 0x7B # tl"
    using stringify_items_head by blast
  have "JSON_stringify items = 0x5B # stringify_items (item # rest) @ [0x5D]"
    using Cons by (simp add: JSON_stringify_def js_def)
  moreover have "expect_char 0x5B (0x5B # r) = Some r" for r
    by (simp add: expect_char_def is_json_white_def)
  moreover have "expect_char 0x5D (0x7B # tl) = None"
    by (simp add: expect_char_def is_json_white_def)
  moreover have "parse_items (0x7B # tl) = Some items"
    using parse_stringify_items [of item rest] tl Cons by simp
  ultimately show ?thesis
    using tl by (simp add: JSON_parse_def del: stringify_items.simps)
qed

lemma js_add_NaN_right: "js_add add x NaN = NaN"
  by (cases x) simp_all

lemma foldl_js_add_NaN:
  "foldl (\<lambda>sum item. js_add add sum (f item)) NaN items = NaN"
  by (induction items) simp_all

lemma total_NaN:
  assumes "item \<in> set items" and "parseFloat lit (payment_item item) = NaN"
  shows "totalPayment add lit zero items = NaN"
proof -
  from assms(1) obtain xs ys where "items = xs @ item # ys"
    by (auto simp: in_set_conv_decomp)
  with assms(2) show ?thesis
    by (simp add: totalPayment_def js_add_NaN_right foldl_js_add_NaN)
qed

lemma parseFloat_abc: "parseFloat lit (js ''abc'') = NaN"
  by (simp add: js_def parseFloat_def has_decimal_prefix_def starts_unsigned_def is_white_def is_digit_def)

lemma bitlen_zero: "bitlen 0 = 0"
  by (subst bitlen.simps) simp

lemma bitlen_pos: "n \<noteq> 0 \<Longrightarrow> bitlen n = 1 + bitlen (n div 2)"
  by (subst bitlen.simps) simp

lemmas eval_double = bitlen_zero bitlen_pos scale_def binade_def round_half_even_def round_pos_def
  round_double_def digits_value_def starts_with_digit_def exponent_part_def decimal_value_def
  unsigned_literal_def double_lit_def is_digit_def Let_def

text \<open>The familiar sum: in binary64, 0.1 + 0.2 is 0.3000000000000000444089209850062616169452667236328125.\<close>

lemma tenth_plus_fifth:
  "js_add double_add (parseFloat double_lit (js ''0.1'')) (parseFloat double_lit (js ''0.2'')) =
     Num (Fin (1351079888211149 / 4503599627370496))"
  by (simp add: js_def eval_double parseFloat_def has_decimal_prefix_def starts_unsigned_def is_white_def)

lemma total_snoc:
  "totalPayment add lit zero (items @ [item]) =
     js_add add (totalPayment add lit zero items) (parseFloat lit (payment_item item))"
  by (simp add: totalPayment_def)

lemma total_map:
  "totalPayment add lit zero items =
     foldl (\<lambda>sum p. js_add add sum (parseFloat lit p)) (Num zero) (map payment_item items)"
  by (simp add: totalPayment_def foldl_map)

lemmas eval_total = js_def totalPayment_def parseFloat_def has_decimal_prefix_def starts_unsigned_def is_white_def
  toFixed2_def toString_small toString_large digit_def

subsection \<open>The claims\<close>

text \<open>
  C1 (as amended). A submission, whether it adds or updates, is rejected exactly when the
  name or the amount text is empty: then and only then the handler returns the state it
  was given, with the collection as it was and no \<open>setItem\<close> call issued. The amount
  text is not parsed by the handler.
\<close>

theorem submit_rejected_iff:
  "(addOrUpdateContribution now today st = Inr st) = (name st = [] \<or> payment st = [])"
proof (cases "name st = [] \<or> payment st = []")
  case True
  then show ?thesis by (simp add: js_def submit_rejected)
next
  case False
  then have ne: "name st \<noteq> []" "payment st \<noteq> []" by simp_all
  have "addOrUpdateContribution now today st \<noteq> Inr st"
  proof (cases "formatDate (date st)")
    case (Inl e)
    with ne show ?thesis by (simp add: js_def submit_throws)
  next
    case (Inr d)
    show ?thesis
    proof
      assume eq: "addOrUpdateContribution now today st = Inr st"
      have "map_sum id setItem_calls (addOrUpdateContribution now today st) = Inr (Suc (setItem_calls st))"
        using ne Inr
        by (cases "truthy_ref (editingId st)")
          (simp_all add: js_def addOrUpdateContribution_def truthy_def setContributions_def saveContributions_def)
      with eq show False by simp
    qed
  qed
  with False show ?thesis by simp
qed

text \<open>
  C1 as stated fails: with the name \<open>Alice\<close> and the amount text \<open>abc\<close>, which has
  no prefix that is a decimal literal, the submission appends a record to the empty
  collection and one \<open>setItem\<close> call is issued.
\<close>

theorem submit_nonnumeric_accepted:
  "name ((initial (ISO (js ''2024-03-01T09:30:00.000Z'')) None)\<lparr>name := (js ''Alice''), payment := (js ''abc'')\<rparr>) \<noteq> [] \<and>
   payment ((initial (ISO (js ''2024-03-01T09:30:00.000Z'')) None)\<lparr>name := (js ''Alice''), payment := (js ''abc'')\<rparr>) \<noteq> [] \<and>
   \<not> has_decimal_prefix (dropWhile is_white (js ''abc'')) \<and>
   contributions ((initial (ISO (js ''2024-03-01T09:30:00.000Z'')) None)\<lparr>name := (js ''Alice''), payment := (js ''abc'')\<rparr>) = [] \<and>
   setItem_calls ((initial (ISO (js ''2024-03-01T09:30:00.000Z'')) None)\<lparr>name := (js ''Alice''), payment := (js ''abc'')\<rparr>) = 0 \<and>
   map_sum id contributions
     (addOrUpdateContribution 1709285400000 (ISO (js ''2024-03-01T09:30:00.000Z''))
        ((initial (ISO (js ''2024-03-01T09:30:00.000Z'')) None)\<lparr>name := (js ''Alice''), payment := (js ''abc'')\<rparr>)) =
     Inr [\<lparr>id_item = (js ''1709285400000''), name_item = (js ''Alice''), payment_item = (js ''abc''),
           date_item = (js ''2024-03-01'')\<rparr>] \<and>
   map_sum id setItem_calls
     (addOrUpdateContribution 1709285400000 (ISO (js ''2024-03-01T09:30:00.000Z''))
        ((initial (ISO (js ''2024-03-01T09:30:00.000Z'')) None)\<lparr>name := (js ''Alice''), payment := (js ''abc'')\<rparr>)) =
     Inr 1"
  by (simp add: js_def initial_def submit_add formatDate_ISO split_first_def toString_small toString_large
      digit_def has_decimal_prefix_def starts_unsigned_def is_white_def is_digit_def)

text \<open>
  C2 (as amended). A submission in update mode whose \<open>editingId\<close> is the id of no record
  does not fail: with a non-empty name and amount and a valid form date it returns
  normally, the collection is what it was, the form and the editing reference are
  cleared, and the unchanged collection is saved once more.
\<close>

theorem update_absent_id_silent:
  assumes "truthy_ref (editingId st)" and "editingId st = Some i" and "i \<notin> id_item ` set (contributions st)"
    and "name st \<noteq> []" and "payment st \<noteq> []" and "formatDate (date st) = Inr d"
  shows "addOrUpdateContribution now today st =
           Inr (st\<lparr>name := [], payment := [], date := today, editingId := None,
                  storage := Some (JSON_stringify (contributions st)),
                  setItem_calls := Suc (setItem_calls st)\<rparr>)"
  using assms by (simp add: js_def submit_update map_no_match)

text \<open>
  The theorem at a state with one record and an \<open>editingId\<close> that names no record.
\<close>

theorem update_absent_id_silent_witness:
  "addOrUpdateContribution 1709285400000 (ISO (js ''2024-03-01T09:30:00.000Z''))
     ((initial (ISO (js ''2024-02-15T08:00:00.000Z'')) None)
        \<lparr>name := (js ''Bob''), payment := (js ''25.50''), editingId := Some (js ''1709280000000''),
          contributions := [\<lparr>id_item = (js ''1709270000000''), name_item = (js ''Alice''),
                             payment_item = (js ''50.00''), date_item = (js ''2024-03-01'')\<rparr>]\<rparr>) =
   Inr ((initial (ISO (js ''2024-03-01T09:30:00.000Z'')) None)
        \<lparr>contributions := [\<lparr>id_item = (js ''1709270000000''), name_item = (js ''Alice''),
                             payment_item = (js ''50.00''), date_item = (js ''2024-03-01'')\<rparr>],
          storage := Some (JSON_stringify [\<lparr>id_item = (js ''1709270000000''), name_item = (js ''Alice''),
                             payment_item = (js ''50.00''), date_item = (js ''2024-03-01'')\<rparr>]),
          setItem_calls := 1\<rparr>)"
  using update_absent_id_silent [of
      "(initial (ISO (js ''2024-02-15T08:00:00.000Z'')) None)
        \<lparr>name := (js ''Bob''), payment := (js ''25.50''), editingId := Some (js ''1709280000000''),
          contributions := [\<lparr>id_item = (js ''1709270000000''), name_item = (js ''Alice''),
                             payment_item = (js ''50.00''), date_item = (js ''2024-03-01'')\<rparr>]\<rparr>"
      "(js ''1709280000000'')" "(js ''2024-02-15'')" 1709285400000 "ISO (js ''2024-03-01T09:30:00.000Z'')"]
  by (simp add: js_def initial_def formatDate_ISO split_first_def truthy_def)

text \<open>
  C2 as stated fails: in that state the id being edited is not in the collection, and
  the submission does not end in an error.
\<close>

theorem update_absent_id_no_error:
  "editingId ((initial (ISO (js ''2024-02-15T08:00:00.000Z'')) None)
        \<lparr>name := (js ''Bob''), payment := (js ''25.50''), editingId := Some (js ''1709280000000''),
          contributions := [\<lparr>id_item = (js ''1709270000000''), name_item = (js ''Alice''),
                             payment_item = (js ''50.00''), date_item = (js ''2024-03-01'')\<rparr>]\<rparr>) =
     Some (js ''1709280000000'') \<and>
   (js ''1709280000000'') \<notin> id_item ` set (contributions
      ((initial (ISO (js ''2024-02-15T08:00:00.000Z'')) None)
        \<lparr>name := (js ''Bob''), payment := (js ''25.50''), editingId := Some (js ''1709280000000''),
          contributions := [\<lparr>id_item = (js ''1709270000000''), name_item = (js ''Alice''),
                             payment_item = (js ''50.00''), date_item = (js ''2024-03-01'')\<rparr>]\<rparr>)) \<and>
   \<not> isl (addOrUpdateContribution 1709285400000 (ISO (js ''2024-03-01T09:30:00.000Z''))
     ((initial (ISO (js ''2024-02-15T08:00:00.000Z'')) None)
        \<lparr>name := (js ''Bob''), payment := (js ''25.50''), editingId := Some (js ''1709280000000''),
          contributions := [\<lparr>id_item = (js ''1709270000000''), name_item = (js ''Alice''),
                             payment_item = (js ''50.00''), date_item = (js ''2024-03-01'')\<rparr>]\<rparr>))"
  by (simp add: js_def initial_def submit_update formatDate_ISO split_first_def truthy_def)

text \<open>
  C3 (as amended). For an id present in the collection, \<open>deleteContribution\<close> returns a
  state whose sorted view holds no record with that id, and whose collection is shorter.
  Deleting the same id once more does not fail either: it returns normally, leaves the
  collection as it is, and issues one more \<open>setItem\<close> call.
\<close>

theorem delete_then_absent:
  assumes "i \<in> id_item ` set (contributions st)"
  shows "\<exists>st1 st2.
           deleteContribution i st = Inr st1 \<and>
           i \<notin> id_item ` set (sortedContributions (contributions st1)) \<and>
           length (contributions st1) < length (contributions st) \<and>
           deleteContribution i st1 = Inr st2 \<and>
           contributions st2 = contributions st1 \<and>
           setItem_calls st2 = Suc (setItem_calls st1)"
proof -
  let ?keep = "filter (\<lambda>item. id_item item \<noteq> i) (contributions st)"
  have absent: "i \<notin> id_item ` set ?keep" by auto
  from assms have shorter: "length ?keep < length (contributions st)"
    by (auto intro!: length_filter_less)
  have again: "filter (\<lambda>item. id_item item \<noteq> i) ?keep = ?keep" by simp
  from absent shorter again show ?thesis
    by (simp add: js_def delete_result sortedContributions_def set_sort_by)
qed

text \<open>
  The theorem at a collection of one record.
\<close>

theorem delete_then_absent_witness:
  "\<exists>st1 st2.
     deleteContribution (js ''1709270000000'')
       ((initial (ISO (js ''2024-02-15T08:00:00.000Z'')) None)
          \<lparr>contributions := [\<lparr>id_item = (js ''1709270000000''), name_item = (js ''Alice''),
                               payment_item = (js ''50.00''), date_item = (js ''2024-03-01'')\<rparr>]\<rparr>) = Inr st1 \<and>
     (js ''1709270000000'') \<notin> id_item ` set (sortedContributions (contributions st1)) \<and>
     length (contributions st1) < length [\<lparr>id_item = (js ''1709270000000''), name_item = (js ''Alice''),
                               payment_item = (js ''50.00''), date_item = (js ''2024-03-01'')\<rparr>] \<and>
     deleteContribution (js ''1709270000000'') st1 = Inr st2 \<and>
     contributions st2 = contributions st1 \<and>
     setItem_calls st2 = Suc (setItem_calls st1)"
  using delete_then_absent [of "(js ''1709270000000'')"
      "(initial (ISO (js ''2024-02-15T08:00:00.000Z'')) None)
          \<lparr>contributions := [\<lparr>id_item = (js ''1709270000000''), name_item = (js ''Alice''),
                               payment_item = (js ''50.00''), date_item = (js ''2024-03-01'')\<rparr>]\<rparr>"]
  by simp

text \<open>
  C3 as stated fails: after the record is deleted, the second deletion of its id returns a
  state and no error.
\<close>

theorem second_delete_no_error:
  "deleteContribution (js ''1709270000000'')
     ((initial (ISO (js ''2024-02-15T08:00:00.000Z'')) None)
        \<lparr>contributions := [\<lparr>id_item = (js ''1709270000000''), name_item = (js ''Alice''),
                             payment_item = (js ''50.00''), date_item = (js ''2024-03-01'')\<rparr>]\<rparr>) =
   Inr ((initial (ISO (js ''2024-02-15T08:00:00.000Z'')) None)
        \<lparr>storage := Some (JSON_stringify []), setItem_calls := 1\<rparr>) \<and>
   deleteContribution (js ''1709270000000'')
     ((initial (ISO (js ''2024-02-15T08:00:00.000Z'')) None)
        \<lparr>storage := Some (JSON_stringify []), setItem_calls := 1\<rparr>) =
   Inr ((initial (ISO (js ''2024-02-15T08:00:00.000Z'')) None)
        \<lparr>storage := Some (JSON_stringify []), setItem_calls := 2\<rparr>) \<and>
   \<not> isl (deleteContribution (js ''1709270000000'')
     ((initial (ISO (js ''2024-02-15T08:00:00.000Z'')) None)
        \<lparr>storage := Some (JSON_stringify []), setItem_calls := 1\<rparr>))"
  by (simp add: js_def initial_def delete_result)

text \<open>
  C4 (as amended). A submission in add mode with a non-empty name and amount and a valid
  form date appends exactly one record, carrying the name, the amount text and the
  formatted date, whose id is the decimal text of the clock reading. That id differs from
  the id made at every other clock reading; nothing makes it differ from an id made at
  the same reading.
\<close>

theorem add_appends:
  assumes "name st \<noteq> []" and "payment st \<noteq> []" and "\<not> truthy_ref (editingId st)"
    and "formatDate (date st) = Inr d"
  shows "\<exists>st'. addOrUpdateContribution now today st = Inr st' \<and>
           contributions st' = contributions st @
             [\<lparr>id_item = toString now, name_item = name st, payment_item = payment st,
               date_item = d\<rparr>] \<and>
           (\<forall>m. (toString m = toString now) = (m = now))"
  using assms by (simp add: js_def submit_add inj_eq [OF toString_inj])

text \<open>
  The theorem at the first submission of a run.
\<close>

theorem add_appends_witness:
  "\<exists>st'. addOrUpdateContribution 1709285400000 (ISO (js ''2024-03-01T09:30:00.000Z''))
       ((initial (ISO (js ''2024-03-01T09:30:00.000Z'')) None)\<lparr>name := (js ''Alice''), payment := (js ''50.00'')\<rparr>) = Inr st' \<and>
     contributions st' =
       [\<lparr>id_item = (js ''1709285400000''), name_item = (js ''Alice''), payment_item = (js ''50.00''),
         date_item = (js ''2024-03-01'')\<rparr>] \<and>
     (\<forall>m. (toString m = (js ''1709285400000'')) = (m = 1709285400000))"
  using add_appends [of "(initial (ISO (js ''2024-03-01T09:30:00.000Z'')) None)\<lparr>name := (js ''Alice''), payment := (js ''50.00'')\<rparr>"
      "(js ''2024-03-01'')" 1709285400000 "ISO (js ''2024-03-01T09:30:00.000Z'')"]
  by (simp add: js_def initial_def formatDate_ISO split_first_def toString_small toString_large digit_def)

text \<open>
  C4 as stated fails: the first submission yields the state shown, and a second
  submission at the same clock reading yields a collection whose two records have the
  same id.
\<close>

theorem same_clock_same_id:
  "addOrUpdateContribution 1709285400000 (ISO (js ''2024-03-01T09:30:00.000Z''))
     ((initial (ISO (js ''2024-03-01T09:30:00.000Z'')) None)\<lparr>name := (js ''Alice''), payment := (js ''50.00'')\<rparr>) =
   Inr ((initial (ISO (js ''2024-03-01T09:30:00.000Z'')) None)
        \<lparr>contributions := [\<lparr>id_item = (js ''1709285400000''), name_item = (js ''Alice''),
                             payment_item = (js ''50.00''), date_item = (js ''2024-03-01'')\<rparr>],
          storage := Some (JSON_stringify [\<lparr>id_item = (js ''1709285400000''), name_item = (js ''Alice''),
                             payment_item = (js ''50.00''), date_item = (js ''2024-03-01'')\<rparr>]),
          setItem_calls := 1\<rparr>) \<and>
   map_sum id (map id_item \<circ> contributions)
     (addOrUpdateContribution 1709285400000 (ISO (js ''2024-03-01T09:30:00.000Z''))
        ((initial (ISO (js ''2024-03-01T09:30:00.000Z'')) None)
         \<lparr>name := (js ''Bob''), payment := (js ''25.50''),
           contributions := [\<lparr>id_item = (js ''1709285400000''), name_item = (js ''Alice''),
                             payment_item = (js ''50.00''), date_item = (js ''2024-03-01'')\<rparr>],
           storage := Some (JSON_stringify [\<lparr>id_item = (js ''1709285400000''), name_item = (js ''Alice''),
                             payment_item = (js ''50.00''), date_item = (js ''2024-03-01'')\<rparr>]),
           setItem_calls := 1\<rparr>)) =
   Inr [(js ''1709285400000''), (js ''1709285400000'')]"
  by (simp add: js_def initial_def submit_add formatDate_ISO split_first_def
      toString_small toString_large digit_def)

text \<open>
  C5. The sorted view is in descending lexicographic order of the dates, it is a
  permutation of the collection, and the records of any one date keep the order they
  have in the collection; the records A (2024-01-05), B (2024-01-10), C (2024-01-05),
  inserted in this order, are listed as B, A, C.
\<close>

theorem sortedContributions_descending_stable:
  "sorted_wrt (\<lambda>a b. date_item b \<le> date_item a) (sortedContributions items) \<and>
   mset (sortedContributions items) = mset items \<and>
   (\<forall>d. filter (\<lambda>r. date_item r = d) (sortedContributions items) =
        filter (\<lambda>r. date_item r = d) items) \<and>
   sortedContributions
     [\<lparr>id_item = a, name_item = na, payment_item = pa, date_item = (js ''2024-01-05'')\<rparr>,
      \<lparr>id_item = b, name_item = nb, payment_item = pb, date_item = (js ''2024-01-10'')\<rparr>,
      \<lparr>id_item = c, name_item = nc, payment_item = pc, date_item = (js ''2024-01-05'')\<rparr>] =
     [\<lparr>id_item = b, name_item = nb, payment_item = pb, date_item = (js ''2024-01-10'')\<rparr>,
      \<lparr>id_item = a, name_item = na, payment_item = pa, date_item = (js ''2024-01-05'')\<rparr>,
      \<lparr>id_item = c, name_item = nc, payment_item = pc, date_item = (js ''2024-01-05'')\<rparr>]"
proof -
  have ex: "sortedContributions
     [\<lparr>id_item = a, name_item = na, payment_item = pa, date_item = (js ''2024-01-05'')\<rparr>,
      \<lparr>id_item = b, name_item = nb, payment_item = pb, date_item = (js ''2024-01-10'')\<rparr>,
      \<lparr>id_item = c, name_item = nc, payment_item = pc, date_item = (js ''2024-01-05'')\<rparr>] =
     [\<lparr>id_item = b, name_item = nb, payment_item = pb, date_item = (js ''2024-01-10'')\<rparr>,
      \<lparr>id_item = a, name_item = na, payment_item = pa, date_item = (js ''2024-01-05'')\<rparr>,
      \<lparr>id_item = c, name_item = nc, payment_item = pc, date_item = (js ''2024-01-05'')\<rparr>]"
    by (simp add: js_def sortedContributions_def sort_by_def)
  show ?thesis
    unfolding ex
    by (simp add: js_def sortedContributions_def sorted_sort_by_date mset_sort_by filter_sort_by_date)
qed



text \<open>
  C6 as stated fails: in binary64 the amounts \<open>9007199254740992\<close>, \<open>1\<close>,
  \<open>1\<close> in this order have the total 9007199254740992, which is not their sum, and the
  same amounts with the large one last have the total 9007199254740994; the two totals
  are also shown differently.
\<close>

theorem total_order_dependent:
  "totalPayment double_add double_lit (Fin 0)
     [\<lparr>id_item = (js ''1''), name_item = (js ''Ann''), payment_item = (js ''9007199254740992''), date_item = (js ''2024-03-01'')\<rparr>,
      \<lparr>id_item = (js ''2''), name_item = (js ''Bob''), payment_item = (js ''1''), date_item = (js ''2024-03-02'')\<rparr>,
      \<lparr>id_item = (js ''3''), name_item = (js ''Cy''), payment_item = (js ''1''), date_item = (js ''2024-03-03'')\<rparr>] =
   Num (Fin 9007199254740992) \<and>
   totalPayment double_add double_lit (Fin 0)
     [\<lparr>id_item = (js ''2''), name_item = (js ''Bob''), payment_item = (js ''1''), date_item = (js ''2024-03-02'')\<rparr>,
      \<lparr>id_item = (js ''3''), name_item = (js ''Cy''), payment_item = (js ''1''), date_item = (js ''2024-03-03'')\<rparr>,
      \<lparr>id_item = (js ''1''), name_item = (js ''Ann''), payment_item = (js ''9007199254740992''), date_item = (js ''2024-03-01'')\<rparr>] =
   Num (Fin 9007199254740994) \<and>
   mset (map payment_item
     [\<lparr>id_item = (js ''1''), name_item = (js ''Ann''), payment_item = (js ''9007199254740992''), date_item = (js ''2024-03-01'')\<rparr>,
      \<lparr>id_item = (js ''2''), name_item = (js ''Bob''), payment_item = (js ''1''), date_item = (js ''2024-03-02'')\<rparr>,
      \<lparr>id_item = (js ''3''), name_item = (js ''Cy''), payment_item = (js ''1''), date_item = (js ''2024-03-03'')\<rparr>]) =
   mset (map payment_item
     [\<lparr>id_item = (js ''2''), name_item = (js ''Bob''), payment_item = (js ''1''), date_item = (js ''2024-03-02'')\<rparr>,
      \<lparr>id_item = (js ''3''), name_item = (js ''Cy''), payment_item = (js ''1''), date_item = (js ''2024-03-03'')\<rparr>,
      \<lparr>id_item = (js ''1''), name_item = (js ''Ann''), payment_item = (js ''9007199254740992''), date_item = (js ''2024-03-01'')\<rparr>]) \<and>
   toFixed2 (Num (Fin 9007199254740992)) = Some (js ''9007199254740992.00'') \<and>
   toFixed2 (Num (Fin 9007199254740994)) = Some (js ''9007199254740994.00'')"
  by (simp add: js_def eval_double eval_total)

text \<open>
  C7. Parsing the text that \<open>JSON.stringify\<close> writes for a collection gives the
  collection back, record by record and in the same order; so a component that starts on
  the slot that \<open>saveContributions\<close> wrote loads the collection that was saved.
\<close>

theorem save_then_load:
  "JSON_parse (JSON_stringify items) = Some items \<and>
   storage (saveContributions st) = Some (JSON_stringify (contributions st)) \<and>
   contributions (loadContributions (initial today (storage (saveContributions st)))) =
     contributions st"
  by (simp add: js_def JSON_parse_stringify loadContributions_def saveContributions_def initial_def
      setContributions_def)

text \<open>
  C8. In update mode, with the id being edited present in the collection, a non-empty
  name and amount and a valid form date, the submission keeps the length of the
  collection, puts at every position that held a record with that id the record with the
  same id and the submitted fields, and leaves the record at every other position as it
  was.
\<close>

theorem update_frame:
  assumes "truthy_ref (editingId st)" and "editingId st = Some i" and "i \<in> id_item ` set (contributions st)"
    and "name st \<noteq> []" and "payment st \<noteq> []" and "formatDate (date st) = Inr d"
  shows "\<exists>st'. addOrUpdateContribution now today st = Inr st' \<and>
           length (contributions st') = length (contributions st) \<and>
           (\<forall>k < length (contributions st).
              (id_item (contributions st ! k) = i \<longrightarrow>
                 contributions st' ! k =
                   \<lparr>id_item = i, name_item = name st, payment_item = payment st, date_item = d\<rparr>) \<and>
              (id_item (contributions st ! k) \<noteq> i \<longrightarrow>
                 contributions st' ! k = contributions st ! k)) \<and>
           (\<exists>k < length (contributions st). id_item (contributions st ! k) = i)"
proof -
  from assms(3) obtain k where "k < length (contributions st)" "id_item (contributions st ! k) = i"
    by (auto simp: js_def in_set_conv_nth)
  with assms show ?thesis
    by (auto simp: js_def submit_update record_update_eq)
qed

text \<open>
  The theorem at a collection of two records, the second of which is updated.
\<close>

theorem update_frame_witness:
  "\<exists>st'. addOrUpdateContribution 1709285400000 (ISO (js ''2024-03-01T09:30:00.000Z''))
       ((initial (ISO (js ''2024-02-20T00:00:00.000Z'')) None)
          \<lparr>name := (js ''Bobby''), payment := (js ''30''), editingId := Some (js ''2''),
            contributions :=
              [\<lparr>id_item = (js ''1''), name_item = (js ''Alice''), payment_item = (js ''50.00''), date_item = (js ''2024-03-01'')\<rparr>,
               \<lparr>id_item = (js ''2''), name_item = (js ''Bob''), payment_item = (js ''25.50''), date_item = (js ''2024-02-15'')\<rparr>]\<rparr>) = Inr st' \<and>
     contributions st' =
       [\<lparr>id_item = (js ''1''), name_item = (js ''Alice''), payment_item = (js ''50.00''), date_item = (js ''2024-03-01'')\<rparr>,
        \<lparr>id_item = (js ''2''), name_item = (js ''Bobby''), payment_item = (js ''30''), date_item = (js ''2024-02-20'')\<rparr>]"
proof -
  let ?st = "(initial (ISO (js ''2024-02-20T00:00:00.000Z'')) None)
          \<lparr>name := (js ''Bobby''), payment := (js ''30''), editingId := Some (js ''2''),
            contributions :=
              [\<lparr>id_item = (js ''1''), name_item = (js ''Alice''), payment_item = (js ''50.00''), date_item = (js ''2024-03-01'')\<rparr>,
               \<lparr>id_item = (js ''2''), name_item = (js ''Bob''), payment_item = (js ''25.50''), date_item = (js ''2024-02-15'')\<rparr>]\<rparr>"
  have "truthy_ref (editingId ?st)" "editingId ?st = Some (js ''2'')" "(js ''2'') \<in> id_item ` set (contributions ?st)"
    "name ?st \<noteq> []" "payment ?st \<noteq> []" "formatDate (date ?st) = Inr (js ''2024-02-20'')"
    by (simp_all add: js_def initial_def formatDate_ISO split_first_def truthy_def)
  from update_frame [OF this, of 1709285400000 "ISO (js ''2024-03-01T09:30:00.000Z'')"]
  obtain st' where r: "addOrUpdateContribution 1709285400000 (ISO (js ''2024-03-01T09:30:00.000Z'')) ?st = Inr st'"
    and len: "length (contributions st') = length (contributions ?st)"
    and at: "\<forall>k < length (contributions ?st).
              (id_item (contributions ?st ! k) = (js ''2'') \<longrightarrow>
                 contributions st' ! k =
                   \<lparr>id_item = (js ''2''), name_item = name ?st, payment_item = payment ?st, date_item = (js ''2024-02-20'')\<rparr>) \<and>
              (id_item (contributions ?st ! k) \<noteq> (js ''2'') \<longrightarrow>
                 contributions st' ! k = contributions ?st ! k)"
    by blast
  from at have "contributions st' ! 0 = contributions ?st ! 0"
    and "contributions st' ! 1 = \<lparr>id_item = (js ''2''), name_item = (js ''Bobby''), payment_item = (js ''30''), date_item = (js ''2024-02-20'')\<rparr>"
    by (simp_all add: js_def initial_def)
  with len have "contributions st' =
       [\<lparr>id_item = (js ''1''), name_item = (js ''Alice''), payment_item = (js ''50.00''), date_item = (js ''2024-03-01'')\<rparr>,
        \<lparr>id_item = (js ''2''), name_item = (js ''Bobby''), payment_item = (js ''30''), date_item = (js ''2024-02-20'')\<rparr>]"
    by (auto simp: js_def initial_def list_eq_iff_nth_eq less_Suc_eq)
  with r show ?thesis by blast
qed

text \<open>
  C9. After typing a name and the amount text \<open>abc\<close> and submitting, the collection
  holds a record whose amount \<open>parseFloat\<close> reads as NaN, and the total is NaN; and
  whenever some record's amount reads as NaN, the total is NaN, whatever the arithmetic
  of the other doubles.
\<close>

theorem nonnumeric_amount_total_NaN:
  "(\<exists>st. run newDate [ChangeName (js ''Alice''), ChangePayment (js ''abc''), Submit now today]
           (initial (ISO s) slot) = Inr st \<and>
         (\<exists>item. item \<in> set (contributions st) \<and> parseFloat lit (payment_item item) = NaN) \<and>
         totalPayment add lit zero (contributions st) = NaN) \<and>
   (\<forall>items. (\<exists>item. item \<in> set items \<and> parseFloat lit (payment_item item) = NaN) \<longrightarrow>
        totalPayment add lit zero items = NaN)"
proof -
  have all: "\<forall>items. (\<exists>item. item \<in> set items \<and> parseFloat lit (payment_item item) = NaN) \<longrightarrow>
        totalPayment add lit zero items = NaN"
    by (auto intro: total_NaN)
  let ?item = "\<lparr>id_item = toString now, name_item = (js ''Alice''), payment_item = (js ''abc''),
                 date_item = split_first (cu CHR ''T'') s\<rparr>"
  have run: "map_sum id contributions (run newDate [ChangeName (js ''Alice''), ChangePayment (js ''abc''), Submit now today]
           (initial (ISO s) slot)) = Inr [?item]"
    by (simp add: js_def initial_def setName_def setPayment_def submit_add formatDate_ISO)
  then obtain st where st: "run newDate [ChangeName (js ''Alice''), ChangePayment (js ''abc''), Submit now today]
           (initial (ISO s) slot) = Inr st" and cs: "contributions st = [?item]"
    by (cases "run newDate [ChangeName (js ''Alice''), ChangePayment (js ''abc''), Submit now today]
           (initial (ISO s) slot)") auto
  have "parseFloat lit (payment_item ?item) = NaN" by (simp add: parseFloat_abc)
  with cs have "\<exists>item. item \<in> set (contributions st) \<and> parseFloat lit (payment_item item) = NaN"
    by auto
  with st all show ?thesis by blast
qed

text \<open>
  The theorem in binary64, at a collection whose second record has the amount text
  \<open>abc\<close>; the total is shown as \<open>NaN\<close>.
\<close>

theorem nonnumeric_amount_total_NaN_witness:
  "totalPayment double_add double_lit (Fin 0)
     [\<lparr>id_item = (js ''1''), name_item = (js ''Bob''), payment_item = (js ''25.50''), date_item = (js ''2024-02-15'')\<rparr>,
      \<lparr>id_item = (js ''2''), name_item = (js ''Alice''), payment_item = (js ''abc''), date_item = (js ''2024-03-01'')\<rparr>] = NaN \<and>
   toFixed2 NaN = Some (js ''NaN'')"
proof -
  have "\<exists>item. item \<in> set [\<lparr>id_item = (js ''1''), name_item = (js ''Bob''), payment_item = (js ''25.50''), date_item = (js ''2024-02-15'')\<rparr>,
      \<lparr>id_item = (js ''2''), name_item = (js ''Alice''), payment_item = (js ''abc''), date_item = (js ''2024-03-01'')\<rparr>] \<and>
      parseFloat double_lit (payment_item item) = NaN"
    by (rule exI [of _ "\<lparr>id_item = (js ''2''), name_item = (js ''Alice''), payment_item = (js ''abc''), date_item = (js ''2024-03-01'')\<rparr>"])
      (simp add: parseFloat_abc)
  with nonnumeric_amount_total_NaN [where lit = double_lit and add = double_add and zero = "Fin 0"]
  have "totalPayment double_add double_lit (Fin 0)
     [\<lparr>id_item = (js ''1''), name_item = (js ''Bob''), payment_item = (js ''25.50''), date_item = (js ''2024-02-15'')\<rparr>,
      \<lparr>id_item = (js ''2''), name_item = (js ''Alice''), payment_item = (js ''abc''), date_item = (js ''2024-03-01'')\<rparr>] = NaN"
    by blast
  then show ?thesis by (simp add: js_def toFixed2_def)
qed

text \<open>
  C10. While a record is being edited, deleting it leaves \<open>editingId\<close> set to its id,
  which is now the id of no record; the next submission with a non-empty name and amount
  and a valid form date leaves the collection as the deletion made it and clears
  \<open>editingId\<close>.
\<close>

theorem delete_edited_then_submit:
  assumes "truthy_ref (editingId st)" and "editingId st = Some i"
    and "name st \<noteq> []" and "payment st \<noteq> []" and "formatDate (date st) = Inr d"
  shows "\<exists>st1 st2.
           deleteContribution i st = Inr st1 \<and>
           editingId st1 = Some i \<and>
           i \<notin> id_item ` set (contributions st1) \<and>
           addOrUpdateContribution now today st1 = Inr st2 \<and>
           contributions st2 = contributions st1 \<and>
           editingId st2 = None"
proof -
  let ?keep = "filter (\<lambda>item. id_item item \<noteq> i) (contributions st)"
  have absent: "i \<notin> id_item ` set ?keep" by auto
  with assms show ?thesis
    by (simp add: js_def delete_result submit_update map_no_match)
qed

text \<open>
  The theorem at a collection of two records, the second of which is being edited.
\<close>

theorem delete_edited_then_submit_witness:
  "\<exists>st1 st2.
     deleteContribution (js ''2'')
       ((initial (ISO (js ''2024-02-15T00:00:00.000Z'')) None)
          \<lparr>name := (js ''Bob''), payment := (js ''25.50''), editingId := Some (js ''2''),
            contributions :=
              [\<lparr>id_item = (js ''1''), name_item = (js ''Alice''), payment_item = (js ''50.00''), date_item = (js ''2024-03-01'')\<rparr>,
               \<lparr>id_item = (js ''2''), name_item = (js ''Bob''), payment_item = (js ''25.50''), date_item = (js ''2024-02-15'')\<rparr>]\<rparr>) = Inr st1 \<and>
     editingId st1 = Some (js ''2'') \<and>
     (js ''2'') \<notin> id_item ` set (contributions st1) \<and>
     addOrUpdateContribution 1709285400000 (ISO (js ''2024-03-01T09:30:00.000Z'')) st1 = Inr st2 \<and>
     contributions st2 = contributions st1 \<and>
     editingId st2 = None"
  using delete_edited_then_submit [of
      "(initial (ISO (js ''2024-02-15T00:00:00.000Z'')) None)
          \<lparr>name := (js ''Bob''), payment := (js ''25.50''), editingId := Some (js ''2''),
            contributions :=
              [\<lparr>id_item = (js ''1''), name_item = (js ''Alice''), payment_item = (js ''50.00''), date_item = (js ''2024-03-01'')\<rparr>,
               \<lparr>id_item = (js ''2''), name_item = (js ''Bob''), payment_item = (js ''25.50''), date_item = (js ''2024-02-15'')\<rparr>]\<rparr>"
      "(js ''2'')" "(js ''2024-02-15'')" 1709285400000 "ISO (js ''2024-03-01T09:30:00.000Z'')"]
  by (simp add: js_def initial_def formatDate_ISO split_first_def truthy_def)

end
